theory Spec2Isabelle
  imports Main "HOL-Library.AList" "HOL-Library.Sublist"
begin

section \<open>Data model\<close>

text \<open>
  The embedding follows \<^verbatim>\<open>src/lib/WalletSynchronizer.ts\<close>. A TypeScript \<^verbatim>\<open>number\<close>
  that holds a block height, a timestamp or an amount in atomic units is an \<^typ>\<open>int\<close>
  (the rounding of IEEE doubles beyond 2^53 and the value NaN are outside the model).
  A \<^verbatim>\<open>Map<string, number>\<close> is the list of its entries in insertion order: \<^verbatim>\<open>get\<close> is
  \<^const>\<open>map_of\<close>, \<^verbatim>\<open>set\<close> is \<^const>\<open>AList.update\<close> (an existing key keeps its
  place, a new key goes to the end) and \<^verbatim>\<open>_.isEmpty\<close> is the test against \<open>[]\<close>.
  Arrays that the code only pushes to are lists extended at the end.
\<close>

type_synonym transfers = "(string \<times> int) list"

text \<open>
  Modelled from the spec: the declarations of \<^verbatim>\<open>./Types\<close> (Transaction, TransactionData,
  KeyInput, the raw transactions and Block) are missing from the sources. The
  records below carry the fields that the synchronizer reads or passes to the
  \<^verbatim>\<open>Transaction\<close> constructor, in the order of the constructor call, as section 3 of the
  specification lists them.
\<close>

record transaction =
  transfers :: transfers
  hash :: string
  fee :: int
  timestamp :: int
  blockHeight :: int
  paymentID :: string
  unlockTime :: int
  isCoinbaseTransaction :: bool

record transactionData =
  transactionsToAdd :: "transaction list"
  keyImagesToMarkSpent :: "(string \<times> string) list"

record keyOutput =
  key :: string
  amount :: int

record keyInput =
  amount :: int
  keyImage :: string

record rawCoinbaseTransaction =
  keyOutputs :: "keyOutput list"
  hash :: string
  transactionPublicKey :: string
  unlockTime :: int

record rawTransaction = rawCoinbaseTransaction +
  paymentID :: string
  keyInputs :: "keyInput list"

record block =
  coinbaseTransaction :: rawCoinbaseTransaction
  transactions :: "rawTransaction list"
  blockHeight :: int
  blockHash :: string
  blockTimestamp :: int

subsection \<open>The checkpoint tracker\<close>

text \<open>
  Modelled from the spec: the class \<^verbatim>\<open>SynchronizationStatus\<close> (file
  \<^verbatim>\<open>./SynchronizationStatus\<close>) and its JSON form are missing from the sources. Section 4.1
  of the specification describes it: a current height, 0 when nothing is synced, and a
  window of (height, hash) checkpoints, most recent first, capped at a fixed size (the
  specification suggests 100); \<open>record\<close> puts a new checkpoint in front and evicts the
  oldest one when the window is full; the serialised form holds the current height and
  the window.
\<close>

record synchronizationStatus =
  lastKnownBlockHeight :: int
  checkpointWindow :: "(int \<times> string) list"

record synchronizationStatusJSON =
  lastKnownBlockHeightJSON :: int
  checkpointWindowJSON :: "(int \<times> string) list"

definition checkpointWindowSize :: nat where
  "checkpointWindowSize = 100"

definition newSynchronizationStatus :: synchronizationStatus where
  "newSynchronizationStatus = \<lparr>lastKnownBlockHeight = 0, checkpointWindow = []\<rparr>"

definition SynchronizationStatus_getHeight :: "synchronizationStatus \<Rightarrow> int" where
  "SynchronizationStatus_getHeight st = lastKnownBlockHeight st"

definition getBlockHashCheckpoints :: "synchronizationStatus \<Rightarrow> string list" where
  "getBlockHashCheckpoints st = map snd (checkpointWindow st)"

definition SynchronizationStatus_storeBlockHash ::
  "int \<Rightarrow> string \<Rightarrow> synchronizationStatus \<Rightarrow> synchronizationStatus" where
  "SynchronizationStatus_storeBlockHash height h st =
     \<lparr>lastKnownBlockHeight = height,
      checkpointWindow = take checkpointWindowSize ((height, h) # checkpointWindow st)\<rparr>"

definition SynchronizationStatus_toJSON :: "synchronizationStatus \<Rightarrow> synchronizationStatusJSON" where
  "SynchronizationStatus_toJSON st =
     \<lparr>lastKnownBlockHeightJSON = lastKnownBlockHeight st,
      checkpointWindowJSON = checkpointWindow st\<rparr>"

definition SynchronizationStatus_fromJSON :: "synchronizationStatusJSON \<Rightarrow> synchronizationStatus" where
  "SynchronizationStatus_fromJSON json =
     \<lparr>lastKnownBlockHeight = lastKnownBlockHeightJSON json,
      checkpointWindow = checkpointWindowJSON json\<rparr>"

subsection \<open>The collaborators\<close>

text \<open>
  The remote node (\<^verbatim>\<open>IDaemon\<close>) and the key management (\<^verbatim>\<open>SubWallets\<close>) are reached
  through the fields \<^verbatim>\<open>this.daemon\<close> and \<^verbatim>\<open>this.subWallets\<close>; their code is not part of
  the sources, so they are parameters of the operations that call them, with the
  interface of section 6 of the specification. \<^verbatim>\<open>getLocalDaemonBlockCount\<close> returns a
  number; \<^verbatim>\<open>getWalletSyncData\<close> returns the batch or fails (the rejected promise is
  \<open>Inl\<close>); \<^verbatim>\<open>getKeyImageOwner\<close> is a pure query that returns the pair (found, owner);
  \<^verbatim>\<open>convertSyncTimestampToHeight\<close> is a notification without result, recorded in the
  trace of the call.
\<close>

datatype daemon_error = DaemonError string

record daemon =
  getLocalDaemonBlockCount :: int
  getWalletSyncData :: "string list \<Rightarrow> int \<Rightarrow> int \<Rightarrow> daemon_error + block list"

record subWallets =
  getKeyImageOwner :: "string \<Rightarrow> bool \<times> string"

text \<open>
  The trace of a call: every call made to a collaborator, in order, with its arguments
  and, for the two queries to the node, the value that came back.
\<close>

datatype event =
  GetLocalDaemonBlockCount int
| GetWalletSyncData "string list" int int "daemon_error + block list"
| ConvertSyncTimestampToHeight int int

datatype error = Error string

subsection \<open>The synchronizer\<close>

record walletSynchronizerJSON =
  privateViewKey :: string
  startHeight :: int
  startTimestamp :: int
  transactionSynchronizerStatus :: synchronizationStatusJSON

record walletSynchronizer =
  startTimestamp :: int
  startHeight :: int
  privateViewKey :: string
  synchronizationStatus :: synchronizationStatus

section \<open>Operations\<close>

text \<open>
  The constructor stores its arguments and starts with a fresh synchronization status.
  \<^verbatim>\<open>fromJSON\<close> builds the object without running the constructor and assigns the three
  serialised fields and the restored synchronization status; neither it nor \<^verbatim>\<open>toJSON\<close>
  touches the two collaborators, which the caller attaches.
\<close>

definition newWalletSynchronizer :: "int \<Rightarrow> int \<Rightarrow> string \<Rightarrow> walletSynchronizer" where
  "newWalletSynchronizer startTimestamp0 startHeight0 privateViewKey0 =
     \<lparr>startTimestamp = startTimestamp0,
      startHeight = startHeight0,
      privateViewKey = privateViewKey0,
      synchronizationStatus = newSynchronizationStatus\<rparr>"

definition fromJSON :: "walletSynchronizerJSON \<Rightarrow> walletSynchronizer" where
  "fromJSON json =
     \<lparr>startTimestamp = walletSynchronizerJSON.startTimestamp json,
      startHeight = walletSynchronizerJSON.startHeight json,
      privateViewKey = walletSynchronizerJSON.privateViewKey json,
      synchronizationStatus =
        SynchronizationStatus_fromJSON (transactionSynchronizerStatus json)\<rparr>"

definition toJSON :: "walletSynchronizer \<Rightarrow> walletSynchronizerJSON" where
  "toJSON s =
     \<lparr>walletSynchronizerJSON.privateViewKey = privateViewKey s,
      startHeight = startHeight s,
      startTimestamp = startTimestamp s,
      transactionSynchronizerStatus =
        SynchronizationStatus_toJSON (synchronizationStatus s)\<rparr>"

text \<open>
  String concatenation with a number prints the number in decimal
  (a leading minus sign for a negative one).
\<close>

definition digit :: "nat \<Rightarrow> char" where
  "digit n = ''0123456789'' ! n"

fun string_of_nat :: "nat \<Rightarrow> string" where
  "string_of_nat n =
     (if n < 10 then [digit n]
      else string_of_nat (n div 10) @ [digit (n mod 10)])"

declare string_of_nat.simps [simp del]

definition string_of_int :: "int \<Rightarrow> string" where
  "string_of_int i =
     (if i < 0 then ''-'' @ string_of_nat (nat (- i)) else string_of_nat (nat i))"

definition unexpectedHeightMessage :: "int \<Rightarrow> int \<Rightarrow> string" where
  "unexpectedHeightMessage expected actual =
     ''Received unexpected block height from daemon. '' @
     ''Expected '' @ string_of_int expected @ '', got '' @ string_of_int actual @ [CHR 0x0A]"

text \<open>
  \<^verbatim>\<open>getBlocks\<close> returns the batch or raises (\<open>Inl\<close>), together with the synchronizer
  after the call and the trace of the call. The checkpoints are read once, before the
  request; the resume point is pinned by two assignments, and the notification reads the
  two fields after them.
\<close>

definition getBlocks ::
  "daemon \<Rightarrow> walletSynchronizer \<Rightarrow> (error + block list) \<times> walletSynchronizer \<times> event list" where
  "getBlocks d s =
    (let localDaemonBlockCount = getLocalDaemonBlockCount d;
         walletBlockCount = SynchronizationStatus_getHeight (synchronizationStatus s);
         ev1 = [GetLocalDaemonBlockCount localDaemonBlockCount]
     in
       if localDaemonBlockCount < walletBlockCount then (Inr [], s, ev1)
       else
         let blockCheckpoints = getBlockHashCheckpoints (synchronizationStatus s);
             reply = getWalletSyncData d blockCheckpoints (startHeight s) (startTimestamp s);
             ev2 = ev1 @ [GetWalletSyncData blockCheckpoints (startHeight s) (startTimestamp s) reply]
         in
           case reply of
             Inl err \<Rightarrow> (Inr [], s, ev2)
           | Inr blocks \<Rightarrow>
               (case blocks of
                  [] \<Rightarrow> (Inr [], s, ev2)
                | block0 # _ \<Rightarrow>
                    let (s2, ev3) =
                          (if startTimestamp s \<noteq> 0 then
                             let s1 = s\<lparr>startTimestamp := 0\<rparr>;
                                 s2 = s1\<lparr>startHeight := blockHeight block0\<rparr>
                             in (s2, ev2 @ [ConvertSyncTimestampToHeight
                                               (startTimestamp s2) (startHeight s2)])
                           else (s, ev2))
                    in
                      if blockCheckpoints = [] then
                        let actualHeight = blockHeight block0 in
                          if startTimestamp s2 = 0 then
                            if actualHeight \<noteq> startHeight s2 then
                              (Inl (Error (unexpectedHeightMessage (startHeight s2) actualHeight)),
                               s2, ev3)
                            else (Inr blocks, s2, ev3)
                          else (Inr blocks, s2, ev3)
                      else (Inr blocks, s2, ev3)))"

text \<open>
  \<^verbatim>\<open>transfers.get(k) || 0\<close>: 0 for a missing key and for a stored 0, the stored amount
  otherwise.
\<close>

definition getOrZero :: "transfers \<Rightarrow> string \<Rightarrow> int" where
  "getOrZero tr k = (case map_of tr k of None \<Rightarrow> 0 | Some v \<Rightarrow> if v = 0 then 0 else v)"

text \<open>
  The loop of \<^verbatim>\<open>processTransactionInputs\<close>, with the running sum, the transfer map and
  the accumulator as arguments.
\<close>

fun processTransactionInputs_loop ::
  "subWallets \<Rightarrow> keyInput list \<Rightarrow> int \<Rightarrow> transfers \<Rightarrow> transactionData
     \<Rightarrow> int \<times> transfers \<times> transactionData" where
  "processTransactionInputs_loop sw [] sumOfInputs tr txData = (sumOfInputs, tr, txData)"
| "processTransactionInputs_loop sw (input # rest) sumOfInputs tr txData =
     (let sumOfInputs' = sumOfInputs + amount input;
          (found, publicSpendKey) = getKeyImageOwner sw (keyImage input)
      in
        if found then
          let amount0 = getOrZero tr publicSpendKey;
              amount1 = amount0 + amount input;
              tr' = AList.update publicSpendKey amount1 tr;
              txData' = txData\<lparr>keyImagesToMarkSpent :=
                          keyImagesToMarkSpent txData @ [(publicSpendKey, keyImage input)]\<rparr>
          in processTransactionInputs_loop sw rest sumOfInputs' tr' txData'
        else processTransactionInputs_loop sw rest sumOfInputs' tr txData)"

definition processTransactionInputs ::
  "subWallets \<Rightarrow> keyInput list \<Rightarrow> transfers \<Rightarrow> int \<Rightarrow> transactionData
     \<Rightarrow> int \<times> transfers \<times> transactionData" where
  "processTransactionInputs sw keyInputs0 tr blockHeight0 txData =
     processTransactionInputs_loop sw keyInputs0 0 tr txData"

text \<open>
  The body of \<^verbatim>\<open>processTransactionOutputs\<close> in the source is the single statement
  \<^verbatim>\<open>return [0, transfers, txData]\<close> under a TODO comment.
\<close>

definition processTransactionOutputs ::
  "subWallets \<Rightarrow> 'a rawCoinbaseTransaction_scheme \<Rightarrow> transfers \<Rightarrow> int \<Rightarrow> transactionData
     \<Rightarrow> int \<times> transfers \<times> transactionData" where
  "processTransactionOutputs sw rawTX tr blockHeight0 txData = (0, tr, txData)"

definition processTransaction ::
  "subWallets \<Rightarrow> rawTransaction \<Rightarrow> int \<Rightarrow> int \<Rightarrow> transactionData \<Rightarrow> transactionData" where
  "processTransaction sw rawTX blockTimestamp0 blockHeight0 txData =
     (let tr = [];
          (sumOfInputs, tr1, txData1) =
             processTransactionInputs sw (keyInputs rawTX) tr blockHeight0 txData;
          (sumOfOutputs, tr2, txData2) =
             processTransactionOutputs sw rawTX tr1 blockHeight0 txData1
      in
        if tr2 \<noteq> [] then
          let fee0 = sumOfInputs - sumOfOutputs;
              isCoinbaseTransaction0 = False;
              tx = \<lparr>transfers = tr2, hash = hash rawTX, fee = fee0,
                    timestamp = blockTimestamp0, blockHeight = blockHeight0,
                    paymentID = paymentID rawTX, unlockTime = unlockTime rawTX,
                    isCoinbaseTransaction = isCoinbaseTransaction0\<rparr>
          in txData2\<lparr>transactionsToAdd := transactionsToAdd txData2 @ [tx]\<rparr>
        else txData2)"

definition processCoinbaseTransaction ::
  "subWallets \<Rightarrow> rawCoinbaseTransaction \<Rightarrow> int \<Rightarrow> int \<Rightarrow> transactionData \<Rightarrow> transactionData" where
  "processCoinbaseTransaction sw rawTX blockTimestamp0 blockHeight0 txData =
     (let tr = [];
          (ignored, tr1, txData1) =
             processTransactionOutputs sw rawTX tr blockHeight0 txData
      in
        if tr1 \<noteq> [] then
          let fee0 = 0;
              isCoinbaseTransaction0 = True;
              paymentID0 = '''';
              tx = \<lparr>transfers = tr1, hash = hash rawTX, fee = fee0,
                    timestamp = blockTimestamp0, blockHeight = blockHeight0,
                    paymentID = paymentID0, unlockTime = unlockTime rawTX,
                    isCoinbaseTransaction = isCoinbaseTransaction0\<rparr>
          in txData1\<lparr>transactionsToAdd := transactionsToAdd txData1 @ [tx]\<rparr>
        else txData1)"

definition getHeight :: "walletSynchronizer \<Rightarrow> int" where
  "getHeight s = SynchronizationStatus_getHeight (synchronizationStatus s)"

definition storeBlockHash :: "int \<Rightarrow> string \<Rightarrow> walletSynchronizer \<Rightarrow> walletSynchronizer" where
  "storeBlockHash blockHeight0 blockHash0 s =
     s\<lparr>synchronizationStatus :=
         SynchronizationStatus_storeBlockHash blockHeight0 blockHash0 (synchronizationStatus s)\<rparr>"

section \<open>Reading the outcome of a call\<close>

fun message :: "error \<Rightarrow> string" where
  "message (Error m) = m"

text \<open>The notifications to the key management in a trace, as (timestamp, height) pairs.\<close>

fun pins :: "event list \<Rightarrow> (int \<times> int) list" where
  "pins [] = []"
| "pins (ConvertSyncTimestampToHeight t h # evs) = (t, h) # pins evs"
| "pins (_ # evs) = pins evs"

text \<open>The requests for blocks sent to the node in a trace.\<close>

fun requests :: "event list \<Rightarrow> (string list \<times> int \<times> int) list" where
  "requests [] = []"
| "requests (GetWalletSyncData cps h t _ # evs) = (cps, h, t) # requests evs"
| "requests (_ # evs) = requests evs"

text \<open>The batch that the node returned in a trace, if a request was sent and answered.\<close>

fun returnedBatch :: "event list \<Rightarrow> block list option" where
  "returnedBatch [] = None"
| "returnedBatch (GetWalletSyncData _ _ _ (Inr blocks) # _) = Some blocks"
| "returnedBatch (_ # evs) = returnedBatch evs"

text \<open>
  The life of one synchronizer after a point: any sequence of the two public methods that
  write its state, \<^verbatim>\<open>getBlocks\<close> (against the node as it is at that moment; a raised
  error leaves the assignments made before it) and \<^verbatim>\<open>storeBlockHash\<close>. The result is the
  state at the end and the trace of all the calls.
\<close>

datatype call = GetBlocks daemon | StoreBlockHash int string

fun calls :: "call list \<Rightarrow> walletSynchronizer \<Rightarrow> walletSynchronizer \<times> event list" where
  "calls [] s = (s, [])"
| "calls (GetBlocks d # cs) s =
     (case getBlocks d s of
        (r, s', evs) \<Rightarrow> (case calls cs s' of (s'', evs') \<Rightarrow> (s'', evs @ evs')))"
| "calls (StoreBlockHash h x # cs) s = calls cs (storeBlockHash h x s)"

section \<open>Sample data\<close>

definition sampleBlock :: "int \<Rightarrow> block" where
  "sampleBlock h =
     \<lparr>coinbaseTransaction =
        \<lparr>keyOutputs = [], hash = ''c0'', transactionPublicKey = ''p0'', unlockTime = 0\<rparr>,
      transactions = [],
      blockHeight = h,
      blockHash = ''b0'',
      blockTimestamp = 1500000000\<rparr>"

definition sampleDaemon :: "int \<Rightarrow> daemon_error + block list \<Rightarrow> daemon" where
  "sampleDaemon n r = \<lparr>getLocalDaemonBlockCount = n, getWalletSyncData = (\<lambda>cps h t. r)\<rparr>"

definition sampleSubWallets :: subWallets where
  "sampleSubWallets =
     \<lparr>getKeyImageOwner =
        (\<lambda>k. if k = ''ki1'' \<or> k = ''ki3'' then (True, ''alice'') else (False, []))\<rparr>"

definition sampleTxData :: transactionData where
  "sampleTxData = \<lparr>transactionsToAdd = [], keyImagesToMarkSpent = [(''bob'', ''ki0'')]\<rparr>"

definition sampleInputs :: "keyInput list" where
  "sampleInputs =
     [\<lparr>amount = 100, keyImage = ''ki1''\<rparr>,
      \<lparr>amount = 20, keyImage = ''ki2''\<rparr>,
      \<lparr>amount = 3, keyImage = ''ki3''\<rparr>]"

definition sampleRawTX :: rawTransaction where
  "sampleRawTX =
     \<lparr>keyOutputs = [\<lparr>key = ''o1'', amount = 110\<rparr>],
      hash = ''tx1'', transactionPublicKey = ''p1'', unlockTime = 7,
      paymentID = ''pay1'', keyInputs = sampleInputs\<rparr>"

definition sampleCoinbaseTX :: rawCoinbaseTransaction where
  "sampleCoinbaseTX =
     \<lparr>keyOutputs = [\<lparr>key = ''o1'', amount = 100\<rparr>],
      hash = ''cb1'', transactionPublicKey = ''p1'', unlockTime = 40\<rparr>"

section \<open>Facts about getBlocks\<close>

lemmas getBlocks_unfold = getBlocks_def Let_def getHeight_def

lemmas sample_defs = sampleDaemon_def sampleBlock_def newWalletSynchronizer_def
  newSynchronizationStatus_def getBlockHashCheckpoints_def SynchronizationStatus_getHeight_def

lemma string_of_int_samples:
  "string_of_int 200000 = ''200000''" "string_of_int 200001 = ''200001''"
  by (simp_all add: string_of_int_def string_of_nat.simps digit_def)

lemma sublist_string_of_int_message:
  "sublist (string_of_int a) (unexpectedHeightMessage a b)"
  "sublist (string_of_int b) (unexpectedHeightMessage a b)"
  unfolding unexpectedHeightMessage_def
  by (metis sublist_appendI append.assoc)+

lemma pins_append: "pins (xs @ ys) = pins xs @ pins ys"
  by (induction xs rule: pins.induct) simp_all

text \<open>
  The error is raised exactly when the node is not behind, no checkpoint is known, no
  start timestamp is set, and the node answers the request with a batch whose first
  block is not at the start height.
\<close>

lemma getBlocks_raises_explicit:
  "(\<exists>e. fst (getBlocks d s) = Inl e) \<longleftrightarrow>
     (\<not> getLocalDaemonBlockCount d < getHeight s \<and>
      getBlockHashCheckpoints (synchronizationStatus s) = [] \<and> startTimestamp s = 0 \<and>
      (\<exists>b bs. getWalletSyncData d [] (startHeight s) 0 = Inr (b # bs) \<and>
               blockHeight b \<noteq> startHeight s))"
  by (auto simp: getBlocks_unfold split: sum.splits list.splits if_splits)

text \<open>A batch is returned by the node when the request is sent and does not fail.\<close>

lemma returnedBatch_getBlocks:
  "returnedBatch (snd (snd (getBlocks d s))) =
     (if getLocalDaemonBlockCount d < getHeight s then None
      else case getWalletSyncData d (getBlockHashCheckpoints (synchronizationStatus s))
                  (startHeight s) (startTimestamp s) of
             Inl err \<Rightarrow> None | Inr blocks \<Rightarrow> Some blocks)"
  by (auto simp: getBlocks_unfold split: sum.splits list.splits if_splits)

text \<open>
  Claim C1. \<^verbatim>\<open>getBlocks\<close> raises if and only if, on entry, the checkpoint window is empty
  and the start timestamp is 0, and the batch that the node returned in this call is
  non-empty with a first block whose height differs from the start height. The message
  of the error is then the fixed text with the expected start height and the actual
  height of the first block printed in it, so both numbers occur in the message. In
  every other case the call returns a batch.
\<close>

theorem getBlocks_raises_iff:
  "((\<exists>e. fst (getBlocks d s) = Inl e) \<longleftrightarrow>
      (getBlockHashCheckpoints (synchronizationStatus s) = [] \<and> startTimestamp s = 0 \<and>
       (\<exists>b bs. returnedBatch (snd (snd (getBlocks d s))) = Some (b # bs) \<and>
                blockHeight b \<noteq> startHeight s))) \<and>
   (\<forall>e. fst (getBlocks d s) = Inl e \<longrightarrow>
      (\<exists>b bs. returnedBatch (snd (snd (getBlocks d s))) = Some (b # bs) \<and>
         message e = unexpectedHeightMessage (startHeight s) (blockHeight b) \<and>
         sublist (string_of_int (startHeight s)) (message e) \<and>
         sublist (string_of_int (blockHeight b)) (message e)))"
proof (intro conjI allI impI)
  show "(\<exists>e. fst (getBlocks d s) = Inl e) \<longleftrightarrow>
      (getBlockHashCheckpoints (synchronizationStatus s) = [] \<and> startTimestamp s = 0 \<and>
       (\<exists>b bs. returnedBatch (snd (snd (getBlocks d s))) = Some (b # bs) \<and>
                blockHeight b \<noteq> startHeight s))"
    unfolding getBlocks_raises_explicit returnedBatch_getBlocks
    by (auto split: sum.splits)
next
  fix e assume e: "fst (getBlocks d s) = Inl e"
  then have "\<exists>e. fst (getBlocks d s) = Inl e" by blast
  then obtain b bs where nb: "\<not> getLocalDaemonBlockCount d < getHeight s"
    and cp: "getBlockHashCheckpoints (synchronizationStatus s) = []"
    and ts: "startTimestamp s = 0"
    and rp: "getWalletSyncData d [] (startHeight s) 0 = Inr (b # bs)"
    and ne: "blockHeight b \<noteq> startHeight s"
    unfolding getBlocks_raises_explicit by blast
  have rb: "returnedBatch (snd (snd (getBlocks d s))) = Some (b # bs)"
    unfolding returnedBatch_getBlocks using nb cp ts rp by simp
  have m: "message e = unexpectedHeightMessage (startHeight s) (blockHeight b)"
    using e nb cp ts rp ne by (auto simp: getBlocks_unfold)
  show "\<exists>b bs. returnedBatch (snd (snd (getBlocks d s))) = Some (b # bs) \<and>
         message e = unexpectedHeightMessage (startHeight s) (blockHeight b) \<and>
         sublist (string_of_int (startHeight s)) (message e) \<and>
         sublist (string_of_int (blockHeight b)) (message e)"
    using rb m sublist_string_of_int_message by auto
qed

theorem getBlocks_raises_iff_witness:
  "fst (getBlocks (sampleDaemon 500000 (Inr [sampleBlock 200001]))
         (newWalletSynchronizer 0 200000 ''vk'')) =
     Inl (Error (''Received unexpected block height from daemon. '' @
                 ''Expected 200000, got 200001'' @ [CHR 0x0A])) \<and>
   returnedBatch (snd (snd (getBlocks (sampleDaemon 500000 (Inr [sampleBlock 200001]))
         (newWalletSynchronizer 0 200000 ''vk'')))) = Some [sampleBlock 200001] \<and>
   sublist ''200000'' (''Received unexpected block height from daemon. '' @
                 ''Expected 200000, got 200001'' @ [CHR 0x0A]) \<and>
   sublist ''200001'' (''Received unexpected block height from daemon. '' @
                 ''Expected 200000, got 200001'' @ [CHR 0x0A])"
proof -
  let ?d = "sampleDaemon 500000 (Inr [sampleBlock 200001])"
  let ?s = "newWalletSynchronizer 0 200000 ''vk''"
  have g: "getBlocks ?d ?s =
     (Inl (Error (''Received unexpected block height from daemon. '' @
                 ''Expected 200000, got 200001'' @ [CHR 0x0A])), ?s,
      [GetLocalDaemonBlockCount 500000, GetWalletSyncData [] 200000 0 (Inr [sampleBlock 200001])])"
    by (simp add: getBlocks_unfold sample_defs unexpectedHeightMessage_def string_of_int_samples)
  have h: "startHeight ?s = 200000" "blockHeight (sampleBlock 200001) = 200001"
    by (simp_all add: sample_defs)
  show ?thesis
    using getBlocks_raises_iff [of ?d ?s]
    unfolding g by (simp add: h string_of_int_samples unexpectedHeightMessage_def)
qed

text \<open>Once the start timestamp is 0, no call sets it again and none notifies.\<close>

lemma getBlocks_pinned_stays:
  "startTimestamp s = 0 \<Longrightarrow>
   startTimestamp (fst (snd (getBlocks d s))) = 0 \<and> pins (snd (snd (getBlocks d s))) = []"
  by (auto simp: getBlocks_unfold split: sum.splits list.splits)

lemma storeBlockHash_startTimestamp:
  "startTimestamp (storeBlockHash h x s) = startTimestamp s"
  by (simp add: storeBlockHash_def)

lemma calls_pinned_stays:
  "startTimestamp s = 0 \<Longrightarrow>
   startTimestamp (fst (calls cs s)) = 0 \<and> pins (snd (calls cs s)) = []"
proof (induction cs arbitrary: s)
  case Nil
  then show ?case by simp
next
  case (Cons c cs)
  show ?case
  proof (cases c)
    case (GetBlocks d)
    obtain r s' evs where g: "getBlocks d s = (r, s', evs)"
      by (cases "getBlocks d s") auto
    have "startTimestamp s' = 0 \<and> pins evs = []"
      using getBlocks_pinned_stays [OF Cons.prems, of d] g by simp
    then show ?thesis
      using Cons.IH [of s'] GetBlocks g by (auto simp: pins_append split: prod.splits)
  next
    case (StoreBlockHash h x)
    then show ?thesis
      using Cons.IH [of "storeBlockHash h x s"] Cons.prems
      by (simp add: storeBlockHash_startTimestamp)
  qed
qed

lemma getBlocks_pin_step:
  assumes "getBlocks d s = (Inr (b # bs), s', evs)" and "startTimestamp s \<noteq> 0"
  shows "startTimestamp s' = 0 \<and> startHeight s' = blockHeight b \<and>
         pins evs = [(0, blockHeight b)]"
  using assms
  by (auto simp: getBlocks_unfold split: sum.splits list.splits if_splits)

text \<open>
  Claim C2. When a call of \<^verbatim>\<open>getBlocks\<close> that starts with a non-zero start timestamp
  returns a non-empty batch, the start timestamp is 0 after it, the start height is the
  height of the first returned block, and the trace of the call holds exactly one
  notification \<^verbatim>\<open>convertSyncTimestampToHeight\<close>. After any further sequence of calls
  on the synchronizer the start timestamp is still 0 and their trace holds no
  notification.
\<close>

theorem getBlocks_pins_once:
  assumes "getBlocks d s = (Inr (b # bs), s', evs)" and "startTimestamp s \<noteq> 0"
  shows "startTimestamp s' = 0 \<and> startHeight s' = blockHeight b \<and>
         pins evs = [(0, blockHeight b)] \<and> length (pins evs) = 1 \<and>
         (\<forall>cs. startTimestamp (fst (calls cs s')) = 0 \<and> pins (snd (calls cs s')) = [])"
proof -
  have step: "startTimestamp s' = 0 \<and> startHeight s' = blockHeight b \<and>
         pins evs = [(0, blockHeight b)]"
    using assms by (rule getBlocks_pin_step)
  then have "\<forall>cs. startTimestamp (fst (calls cs s')) = 0 \<and> pins (snd (calls cs s')) = []"
    using calls_pinned_stays by blast
  with step show ?thesis by simp
qed

theorem getBlocks_pins_once_witness:
  "startTimestamp (newWalletSynchronizer 1234 0 ''vk'') \<noteq> 0 \<and>
   getBlocks (sampleDaemon 500000 (Inr [sampleBlock 200001, sampleBlock 200002]))
     (newWalletSynchronizer 1234 0 ''vk'') =
     (Inr [sampleBlock 200001, sampleBlock 200002],
      newWalletSynchronizer 0 200001 ''vk'',
      [GetLocalDaemonBlockCount 500000,
       GetWalletSyncData [] 0 1234 (Inr [sampleBlock 200001, sampleBlock 200002]),
       ConvertSyncTimestampToHeight 0 200001]) \<and>
   (\<forall>cs. startTimestamp (fst (calls cs (newWalletSynchronizer 0 200001 ''vk''))) = 0 \<and>
         pins (snd (calls cs (newWalletSynchronizer 0 200001 ''vk''))) = [])"
proof -
  have g: "getBlocks (sampleDaemon 500000 (Inr [sampleBlock 200001, sampleBlock 200002]))
     (newWalletSynchronizer 1234 0 ''vk'') =
     (Inr (sampleBlock 200001 # [sampleBlock 200002]),
      newWalletSynchronizer 0 200001 ''vk'',
      [GetLocalDaemonBlockCount 500000,
       GetWalletSyncData [] 0 1234 (Inr [sampleBlock 200001, sampleBlock 200002]),
       ConvertSyncTimestampToHeight 0 200001])"
    by (simp add: getBlocks_unfold sample_defs)
  have t: "startTimestamp (newWalletSynchronizer 1234 0 ''vk'') \<noteq> 0"
    by (simp add: newWalletSynchronizer_def)
  show ?thesis
    using getBlocks_pins_once [OF g t] g t by simp
qed

text \<open>
  Claim C9. Every notification \<^verbatim>\<open>convertSyncTimestampToHeight\<close> in the trace of a call
  of \<^verbatim>\<open>getBlocks\<close> carries the timestamp 0 and the new start height: the field is read
  after it was zeroed. A notification is sent only when the start timestamp on entry is
  not 0, so the timestamp sent is never the one the synchronizer started with.
\<close>

theorem getBlocks_pin_timestamp_zero:
  "(t, h) \<in> set (pins (snd (snd (getBlocks d s)))) \<Longrightarrow>
     t = 0 \<and> startTimestamp s \<noteq> 0 \<and> t \<noteq> startTimestamp s \<and>
     h = startHeight (fst (snd (getBlocks d s)))"
  by (auto simp: getBlocks_unfold split: sum.splits list.splits if_splits)

theorem getBlocks_pin_timestamp_zero_witness:
  "pins (snd (snd (getBlocks (sampleDaemon 500000 (Inr [sampleBlock 200001]))
                     (newWalletSynchronizer 1234 0 ''vk'')))) = [(0, 200001)] \<and>
   (1234, 200001) \<notin> set (pins (snd (snd (getBlocks (sampleDaemon 500000 (Inr [sampleBlock 200001]))
                     (newWalletSynchronizer 1234 0 ''vk'')))))"
  using getBlocks_pin_timestamp_zero [of 0 200001 "sampleDaemon 500000 (Inr [sampleBlock 200001])"
      "newWalletSynchronizer 1234 0 ''vk''"]
  by (simp add: getBlocks_unfold sample_defs)

text \<open>
  Claim C6. When the node's local height is strictly below the synchronizer's current
  height, \<^verbatim>\<open>getBlocks\<close> returns the empty batch, the synchronizer after the call is the
  synchronizer before it (start height, start timestamp and synchronization status
  included), and the trace holds no request for blocks and no notification.
\<close>

theorem getBlocks_node_behind:
  "getLocalDaemonBlockCount d < getHeight s \<Longrightarrow>
   fst (getBlocks d s) = Inr [] \<and> fst (snd (getBlocks d s)) = s \<and>
   requests (snd (snd (getBlocks d s))) = [] \<and> pins (snd (snd (getBlocks d s))) = []"
  by (simp add: getBlocks_unfold)

theorem getBlocks_node_behind_witness:
  "getLocalDaemonBlockCount (sampleDaemon 300000 (Inr [sampleBlock 200000]))
     < getHeight (storeBlockHash 600000 ''h600000'' (newWalletSynchronizer 0 200000 ''vk'')) \<and>
   getBlocks (sampleDaemon 300000 (Inr [sampleBlock 200000]))
     (storeBlockHash 600000 ''h600000'' (newWalletSynchronizer 0 200000 ''vk'')) =
     (Inr [], storeBlockHash 600000 ''h600000'' (newWalletSynchronizer 0 200000 ''vk''),
      [GetLocalDaemonBlockCount 300000])"
  using getBlocks_node_behind [of "sampleDaemon 300000 (Inr [sampleBlock 200000])"
      "storeBlockHash 600000 ''h600000'' (newWalletSynchronizer 0 200000 ''vk'')"]
  by (simp add: getBlocks_unfold sample_defs storeBlockHash_def
      SynchronizationStatus_storeBlockHash_def)

text \<open>
  Claim C7. When the node answers the request of \<^verbatim>\<open>getBlocks\<close> with a failure, whatever
  the error, the call does not raise: it returns the empty batch, and the start height
  and the start timestamp (indeed the whole synchronizer) are as before the call.
\<close>

theorem getBlocks_remote_failure:
  "getWalletSyncData d (getBlockHashCheckpoints (synchronizationStatus s))
     (startHeight s) (startTimestamp s) = Inl err \<Longrightarrow>
   fst (getBlocks d s) = Inr [] \<and>
   startHeight (fst (snd (getBlocks d s))) = startHeight s \<and>
   startTimestamp (fst (snd (getBlocks d s))) = startTimestamp s \<and>
   fst (snd (getBlocks d s)) = s \<and> pins (snd (snd (getBlocks d s))) = []"
  by (simp add: getBlocks_unfold)

theorem getBlocks_remote_failure_witness:
  "getWalletSyncData (sampleDaemon 500000 (Inl (DaemonError ''timeout'')))
     (getBlockHashCheckpoints (synchronizationStatus (newWalletSynchronizer 1234 0 ''vk'')))
     (startHeight (newWalletSynchronizer 1234 0 ''vk''))
     (startTimestamp (newWalletSynchronizer 1234 0 ''vk'')) = Inl (DaemonError ''timeout'') \<and>
   getBlocks (sampleDaemon 500000 (Inl (DaemonError ''timeout'')))
     (newWalletSynchronizer 1234 0 ''vk'') =
     (Inr [], newWalletSynchronizer 1234 0 ''vk'',
      [GetLocalDaemonBlockCount 500000,
       GetWalletSyncData [] 0 1234 (Inl (DaemonError ''timeout''))])"
  using getBlocks_remote_failure [of "sampleDaemon 500000 (Inl (DaemonError ''timeout''))"
      "newWalletSynchronizer 1234 0 ''vk''" "DaemonError ''timeout''"]
  by (simp add: getBlocks_unfold sample_defs)

section \<open>Facts about the scanning operations\<close>

text \<open>What the loop over the key inputs computes, for any running sum, map and accumulator.\<close>

lemmas scan_sample_defs = sampleSubWallets_def sampleInputs_def sampleTxData_def
  sampleRawTX_def sampleCoinbaseTX_def processTransactionInputs_def
  processTransactionOutputs_def getOrZero_def

lemma loop_sum:
  "fst (processTransactionInputs_loop sw ks acc tr td) = acc + sum_list (map amount ks)"
  by (induction ks arbitrary: acc tr td) (auto simp: Let_def split: prod.splits)

lemma loop_transactionsToAdd:
  "transactionsToAdd (snd (snd (processTransactionInputs_loop sw ks acc tr td))) =
     transactionsToAdd td"
  by (induction ks arbitrary: acc tr td) (auto simp: Let_def split: prod.splits)

lemma loop_keyImagesToMarkSpent:
  "keyImagesToMarkSpent (snd (snd (processTransactionInputs_loop sw ks acc tr td))) =
     keyImagesToMarkSpent td @
     map (\<lambda>i. (snd (getKeyImageOwner sw (keyImage i)), keyImage i))
       (filter (\<lambda>i. fst (getKeyImageOwner sw (keyImage i))) ks)"
  by (induction ks arbitrary: acc tr td) (auto simp: Let_def split: prod.splits)


lemma loop_empty_iff:
  "fst (snd (processTransactionInputs_loop sw ks acc tr td)) = [] \<longleftrightarrow>
     tr = [] \<and> filter (\<lambda>i. fst (getKeyImageOwner sw (keyImage i))) ks = []"
proof (induction ks arbitrary: acc tr td)
  case Nil
  then show ?case by simp
next
  case (Cons i ks)
  obtain found pk where o: "getKeyImageOwner sw (keyImage i) = (found, pk)"
    by (cases "getKeyImageOwner sw (keyImage i)") auto
  show ?case
    using o Cons.IH by (cases found) (auto simp: Let_def)
qed




text \<open>
  What \<^verbatim>\<open>processTransaction\<close> computes: nothing is appended when no key input is owned,
  whatever the outputs are; otherwise one record is appended, not a coinbase, with the
  hash, the payment id and the unlock time of the raw transaction, and with the sum of
  all input amounts as fee, since the scan of the outputs returns 0 and leaves the
  transfer map as the scan of the inputs made it.
\<close>

lemma processTransaction_fee_is_sumOfInputs:
  "transactionsToAdd (processTransaction sw rawTX bt bh td) =
     (if filter (\<lambda>i. fst (getKeyImageOwner sw (keyImage i))) (keyInputs rawTX) = []
      then transactionsToAdd td
      else transactionsToAdd td @
        [\<lparr>transfers = fst (snd (processTransactionInputs sw (keyInputs rawTX) [] bh td)),
          hash = hash rawTX, fee = sum_list (map amount (keyInputs rawTX)),
          timestamp = bt, blockHeight = bh, paymentID = paymentID rawTX,
          unlockTime = unlockTime rawTX, isCoinbaseTransaction = False\<rparr>])"
proof -
  obtain si tr1 td1 where
    l: "processTransactionInputs_loop sw (keyInputs rawTX) 0 [] td = (si, tr1, td1)"
    by (metis prod_cases3)
  have s: "si = sum_list (map amount (keyInputs rawTX))"
    using loop_sum [of sw "keyInputs rawTX" 0 "[]" td] l by simp
  have t: "transactionsToAdd td1 = transactionsToAdd td"
    using loop_transactionsToAdd [of sw "keyInputs rawTX" 0 "[]" td] l by simp
  have e: "tr1 = [] \<longleftrightarrow>
      filter (\<lambda>i. fst (getKeyImageOwner sw (keyImage i))) (keyInputs rawTX) = []"
    using loop_empty_iff [of sw "keyInputs rawTX" 0 "[]" td] l by simp
  show ?thesis
    using l s t e
    by (simp add: processTransaction_def processTransactionInputs_def
        processTransactionOutputs_def Let_def)
qed

text \<open>
  Claim C4. The claim asks \<^verbatim>\<open>processTransaction\<close> to append a record whose fee is the sum
  of the input amounts minus the sum of the output amounts. The source subtracts the
  first component returned by \<^verbatim>\<open>processTransactionOutputs\<close>, the stub that returns 0, so
  the fee recorded is the sum of the input amounts: on a transaction with inputs of 100,
  20 and 3 (the first and the last owned) and one output of 110, the record appended has
  fee 123, where the inputs minus the outputs are 13.
\<close>

theorem processTransaction_fee_sample:
  "transactionsToAdd (processTransaction sampleSubWallets sampleRawTX 99 5 sampleTxData) =
     [\<lparr>transfers = [(''alice'', 103)], hash = ''tx1'', fee = 123,
       timestamp = 99, blockHeight = 5, paymentID = ''pay1'',
       unlockTime = 7, isCoinbaseTransaction = False\<rparr>] \<and>
   sum_list (map amount (keyInputs sampleRawTX)) -
     sum_list (map keyOutput.amount (keyOutputs sampleRawTX)) = 13"
  by (simp add: processTransaction_def Let_def scan_sample_defs)

text \<open>Each scanning operation only adds entries at the end of the two lists.\<close>

lemma processTransactionInputs_prefix:
  "prefix (transactionsToAdd td)
     (transactionsToAdd (snd (snd (processTransactionInputs sw ks tr bh td)))) \<and>
   prefix (keyImagesToMarkSpent td)
     (keyImagesToMarkSpent (snd (snd (processTransactionInputs sw ks tr bh td))))"
  by (simp add: processTransactionInputs_def loop_transactionsToAdd loop_keyImagesToMarkSpent)

lemma processTransaction_prefix:
  "prefix (transactionsToAdd td) (transactionsToAdd (processTransaction sw rawTX bt bh td)) \<and>
   prefix (keyImagesToMarkSpent td)
     (keyImagesToMarkSpent (processTransaction sw rawTX bt bh td))"
proof -
  obtain si tr1 td1 where
    l: "processTransactionInputs sw (keyInputs rawTX) [] bh td = (si, tr1, td1)"
    by (metis prod_cases3)
  have "prefix (transactionsToAdd td) (transactionsToAdd td1)"
    and "prefix (keyImagesToMarkSpent td) (keyImagesToMarkSpent td1)"
    using processTransactionInputs_prefix [of td sw "keyInputs rawTX" "[]" bh] l by simp_all
  then show ?thesis
    using l by (simp add: processTransaction_def processTransactionOutputs_def Let_def
        prefix_order.trans)
qed

lemma processCoinbaseTransaction_prefix:
  "prefix (transactionsToAdd td)
     (transactionsToAdd (processCoinbaseTransaction sw rawCTX bt bh td)) \<and>
   prefix (keyImagesToMarkSpent td)
     (keyImagesToMarkSpent (processCoinbaseTransaction sw rawCTX bt bh td))"
  by (simp add: processCoinbaseTransaction_def processTransactionOutputs_def)

text \<open>
  Claim C10. \<^verbatim>\<open>processTransactionInputs\<close>, \<^verbatim>\<open>processTransaction\<close> and
  \<^verbatim>\<open>processCoinbaseTransaction\<close> are append-only on the accumulator: the transactions to
  add and the key images to mark spent that were there before the call are the first
  entries of the lists after the call, in the same order.
\<close>

theorem scanning_appends_only:
  "prefix (transactionsToAdd td)
     (transactionsToAdd (snd (snd (processTransactionInputs sw ks tr bh td)))) \<and>
   prefix (keyImagesToMarkSpent td)
     (keyImagesToMarkSpent (snd (snd (processTransactionInputs sw ks tr bh td)))) \<and>
   prefix (transactionsToAdd td) (transactionsToAdd (processTransaction sw rawTX bt bh td)) \<and>
   prefix (keyImagesToMarkSpent td)
     (keyImagesToMarkSpent (processTransaction sw rawTX bt bh td)) \<and>
   prefix (transactionsToAdd td)
     (transactionsToAdd (processCoinbaseTransaction sw rawCTX bt bh td)) \<and>
   prefix (keyImagesToMarkSpent td)
     (keyImagesToMarkSpent (processCoinbaseTransaction sw rawCTX bt bh td))"
  using processTransactionInputs_prefix [of td sw ks tr bh]
    processTransaction_prefix [of td sw rawTX bt bh]
    processCoinbaseTransaction_prefix [of td sw rawCTX bt bh]
  by blast

section \<open>Serialisation\<close>

text \<open>
  Claim C8. \<^verbatim>\<open>fromJSON\<close> applied to the result of \<^verbatim>\<open>toJSON\<close> gives a synchronizer with the
  same current height, the same checkpoint hashes, the same start height, start
  timestamp and private view key as the original.
\<close>

theorem fromJSON_toJSON:
  "getHeight (fromJSON (toJSON s)) = getHeight s \<and>
   getBlockHashCheckpoints (synchronizationStatus (fromJSON (toJSON s))) =
     getBlockHashCheckpoints (synchronizationStatus s) \<and>
   startHeight (fromJSON (toJSON s)) = startHeight s \<and>
   startTimestamp (fromJSON (toJSON s)) = startTimestamp s \<and>
   privateViewKey (fromJSON (toJSON s)) = privateViewKey s \<and>
   fromJSON (toJSON s) = s"
  by (simp add: fromJSON_def toJSON_def SynchronizationStatus_fromJSON_def
      SynchronizationStatus_toJSON_def getHeight_def
      SynchronizationStatus_getHeight_def getBlockHashCheckpoints_def)

section \<open>The scan of the outputs\<close>

text \<open>
  Claim C3. The claim asks \<^verbatim>\<open>processTransactionOutputs\<close> to return the sum of the
  amounts of all outputs as first component. The body in the source is a stub marked
  TODO that returns 0 and the map and accumulator it was given: on a coinbase
  transaction with a single output of amount 100 the first component is 0, not 100.
\<close>

theorem processTransactionOutputs_sample:
  "processTransactionOutputs sampleSubWallets sampleCoinbaseTX [] 5 sampleTxData =
     (0, [], sampleTxData) \<and>
   sum_list (map keyOutput.amount (keyOutputs sampleCoinbaseTX)) = 100"
  by (simp add: processTransactionOutputs_def sampleCoinbaseTX_def)

end
